theory Spec2Isabelle
  imports Complex_Main "HOL-Library.Sublist"
begin

section \<open>Grueneisen parameters on a regular grid (pymatgen/phonon/gruneisen.py)\<close>

text \<open>
  The numeric arrays of the source are numpy arrays of floating-point numbers. They are
  modelled over the real numbers: a two-dimensional array is the list of its rows (axis 0
  is the position in the outer list, axis 1 the position inside a row). Where numpy
  yields \<open>nan\<close> or \<open>inf\<close> with a warning (a division by zero, the square root of
  a negative number) the source raises nothing, and the model returns the value HOL gives
  to the same expression; no theorem below rests on such a value.
\<close>

subsection \<open>Errors\<close>

datatype error =
    ValueError string
  | RuntimeError string
  | IndexError string
  | ZeroDivisionError
  | LibraryError string

definition bind_err :: "error + 'a \<Rightarrow> ('a \<Rightarrow> error + 'b) \<Rightarrow> error + 'b" where
  "bind_err r f = (case r of Inl e \<Rightarrow> Inl e | Inr x \<Rightarrow> f x)"

subsection \<open>Collaborators: constants, structure, density-of-states service\<close>

text \<open>
  The physical constants come from \<open>scipy.constants\<close> and \<open>pymatgen.core.units\<close>;
  their values depend on the CODATA release of the installed library, so they are
  parameters of the model.
\<close>

record constants =
  tera :: real
  k_B_Hz_per_K :: real
  k_B_eV_per_K :: real
  k_B :: real
  hbar :: real
  h_Planck :: real
  amu_to_kg :: real

record site =
  atomic_mass :: real

record Structure =
  sites :: "site list"
  volume :: real

text \<open>
  The total density of states is built by phonopy (\<open>TotalDos(mesh).run()\<close>) from the
  transposed frequencies and the multiplicities, and integrated by scipy
  (\<open>UnivariateSpline(x, y, s=0).integral(x[0], x[-1])\<close>, a Python float). Both are
  parameters. \<open>phonopy\<close> is \<open>None\<close> when the import of the library failed, and
  \<open>requires\<close> then raises a \<open>RuntimeError\<close> with the given message.
\<close>

record services =
  phonopy :: "(real list list \<Rightarrow> real list option \<Rightarrow> error + (real list \<times> real list)) option"
  spline_integral :: "real list \<Rightarrow> real list \<Rightarrow> error + real"

subsection \<open>GruneisenParameter\<close>

record GruneisenParameter =
  gp_qpoints :: "real list list"
  gp_gruneisen :: "real list list"
  gp_frequencies :: "real list list"
  gp_multiplicities :: "real list option"
  gp_lattice :: "real list list option"
  gp_structure :: "Structure option"

definition GruneisenParameter_init ::
  "real list list \<Rightarrow> real list list \<Rightarrow> real list list \<Rightarrow> real list option \<Rightarrow>
   Structure option \<Rightarrow> real list list option \<Rightarrow> GruneisenParameter" where
  "GruneisenParameter_init qpoints gruneisen frequencies multiplicities struct lattice =
     \<lparr> gp_qpoints = qpoints, gp_gruneisen = gruneisen, gp_frequencies = frequencies,
       gp_multiplicities = multiplicities, gp_lattice = lattice, gp_structure = struct \<rparr>"

definition tdos ::
  "services \<Rightarrow> GruneisenParameter \<Rightarrow> error + (real list \<times> real list)" where
  "tdos sv a =
     (case phonopy sv of
        None \<Rightarrow> Inl (RuntimeError ''This method requires phonopy to be installed'')
      | Some total_dos \<Rightarrow> total_dos (transpose (gp_frequencies a)) (gp_multiplicities a))"

definition debye_temp_limit ::
  "constants \<Rightarrow> services \<Rightarrow> GruneisenParameter \<Rightarrow> error + real" where
  "debye_temp_limit c sv a =
     bind_err (tdos sv a) (\<lambda>(frequency_points, dos).
       let f_mesh = map (\<lambda>f. f * tera c) frequency_points in
       bind_err (spline_integral sv f_mesh (map2 (\<lambda>d f. d * f\<^sup>2) dos f_mesh)) (\<lambda>i_a.
       bind_err (spline_integral sv f_mesh dos) (\<lambda>i_b.
         if i_b = 0 then Inl ZeroDivisionError
         else let integrals = i_a / i_b in
              Inr (sqrt (5 / 3 * integrals) / k_B_Hz_per_K c))))"

definition acoustic_debye_temp ::
  "constants \<Rightarrow> services \<Rightarrow> GruneisenParameter \<Rightarrow> error + real" where
  "acoustic_debye_temp c sv a =
     (case gp_structure a of
        None \<Rightarrow> Inl (ValueError ''Structure is not defined.'')
      | Some s \<Rightarrow>
          bind_err (debye_temp_limit c sv a) (\<lambda>d.
            Inr (d / real (length (sites s)) powr (1 / 3))))"

text \<open>One entry of the array \<open>cv\<close>: \<open>np.choose(w > 0, (0, ...))\<close> at frequency \<open>w\<close>.\<close>

definition einstein_cv :: "constants \<Rightarrow> real \<Rightarrow> real \<Rightarrow> real" where
  "einstein_cv c t w =
     (let wdkt = w * tera c / (k_B_Hz_per_K c * t);
          exp_wdkt = exp wdkt
      in if w > 0 then k_B_eV_per_K c * wdkt\<^sup>2 * exp_wdkt / (exp_wdkt - 1)\<^sup>2 else 0)"

text \<open>
  \<open>np.where(mask)\<close> on a two-dimensional mask: the index pairs (axis 0, axis 1) of the
  true entries, in row-major order. The source keeps them as a pair of index arrays
  \<open>(ind[0], ind[1])\<close>; the model keeps the list of pairs, and \<open>map fst\<close> is \<open>ind[0]\<close>.
\<close>

definition np_where :: "(real \<Rightarrow> bool) \<Rightarrow> real list list \<Rightarrow> (nat \<times> nat) list" where
  "np_where p m =
     concat (map (\<lambda>(i, row). map (\<lambda>j. (i, j)) (filter (\<lambda>j. p (row ! j)) [0..<length row]))
                 (enumerate 0 m))"

text \<open>\<open>xs[idx]\<close> for an index array \<open>idx\<close> of non-negative integers.\<close>

definition fancy_index :: "real list \<Rightarrow> nat list \<Rightarrow> error + real list" where
  "fancy_index xs idx =
     (if list_all (\<lambda>i. i < length xs) idx then Inr (map (\<lambda>i. xs ! i) idx)
      else Inl (IndexError ''index is out of bounds for axis 0''))"

text \<open>\<open>m[ind]\<close> for index pairs that lie inside \<open>m\<close>.\<close>

definition index2 :: "real list list \<Rightarrow> (nat \<times> nat) list \<Rightarrow> real list" where
  "index2 m ind = map (\<lambda>(i, j). m ! i ! j) ind"

text \<open>
  \<open>np.multiply\<close> of two arrays. Arrays of different shapes are rejected; numpy would
  still broadcast an axis of length one, which the documented layout (both arrays of
  the same shape) never needs.
\<close>

definition np_multiply :: "real list list \<Rightarrow> real list list \<Rightarrow> error + real list list" where
  "np_multiply a b =
     (if map length a = map length b then Inr (map2 (map2 (*)) a b)
      else Inl (ValueError ''operands could not be broadcast together''))"

definition np_dot :: "real list \<Rightarrow> real list \<Rightarrow> real" where
  "np_dot xs ys = sum_list (map2 (*) xs ys)"

text \<open>
  The dispatch on \<open>limit_frequencies\<close> (the \<open>if\<close>/\<open>elif\<close> chain of
  \<open>average_gruneisen\<close>), yielding the index set \<open>ind\<close> or the error it raises.
\<close>

definition select_indices ::
  "constants \<Rightarrow> services \<Rightarrow> GruneisenParameter \<Rightarrow> string option \<Rightarrow> error + (nat \<times> nat) list" where
  "select_indices c sv a limit_frequencies =
     (let w = gp_frequencies a in
      if limit_frequencies = Some ''debye'' then
        bind_err (acoustic_debye_temp c sv a) (\<lambda>adt.
          let acoustic_debye_freq = adt * k_B_Hz_per_K c / tera c in
          Inr (np_where (\<lambda>x. x \<ge> 0 \<and> x \<le> acoustic_debye_freq) w))
      else if limit_frequencies = Some ''acoustic'' then
        (let w_acoustic = map (take 3) w in Inr (np_where (\<lambda>x. x \<ge> 0) w_acoustic))
      else (case limit_frequencies of
              None \<Rightarrow> Inr (np_where (\<lambda>x. x \<ge> 0) w)
            | Some v \<Rightarrow>
                Inl (ValueError (v @ '' is not an accepted value for limit_frequencies.''))))"

definition average_gruneisen ::
  "constants \<Rightarrow> services \<Rightarrow> GruneisenParameter \<Rightarrow> real option \<Rightarrow> bool \<Rightarrow> string option \<Rightarrow>
   error + real" where
  "average_gruneisen c sv a t squared limit_frequencies =
     bind_err (case t of None \<Rightarrow> acoustic_debye_temp c sv a | Some t' \<Rightarrow> Inr t') (\<lambda>t.
       let w = gp_frequencies a;
           cv = map (map (einstein_cv c t)) w;
           gamma = (if squared then map (map (\<lambda>g. g\<^sup>2)) (gp_gruneisen a) else gp_gruneisen a)
       in
       bind_err (select_indices c sv a limit_frequencies) (\<lambda>ind.
         case gp_multiplicities a of
           None \<Rightarrow> Inl (ValueError ''Multiplicities are not defined.'')
         | Some weights \<Rightarrow>
             bind_err (fancy_index weights (map fst ind)) (\<lambda>ws.
             bind_err (np_multiply cv gamma) (\<lambda>cvg.
               let g = np_dot ws (index2 cvg ind) / np_dot ws (index2 cv ind) in
               Inr (if squared then sqrt g else g)))))"

definition np_mean :: "real list \<Rightarrow> real" where
  "np_mean xs = sum_list xs / real (length xs)"

text \<open>
  \<open>theta_d\<close> and \<open>t\<close> are Python floats when the caller supplies them, so
  \<open>theta_d / t\<close> raises for \<open>t = 0\<close>; a defaulted \<open>theta_d\<close> is a numpy float, whose
  division raises nothing.
\<close>

definition thermal_conductivity_slack ::
  "constants \<Rightarrow> services \<Rightarrow> GruneisenParameter \<Rightarrow> bool \<Rightarrow> string option \<Rightarrow> real option \<Rightarrow>
   real option \<Rightarrow> error + real" where
  "thermal_conductivity_slack c sv a squared limit_frequencies theta_d t =
     (case gp_structure a of
        None \<Rightarrow> Inl (ValueError ''Structure is not defined.'')
      | Some s \<Rightarrow>
          let average_mass = np_mean (map atomic_mass (sites s)) * amu_to_kg c in
          bind_err (case theta_d of None \<Rightarrow> acoustic_debye_temp c sv a | Some th \<Rightarrow> Inr th)
          (\<lambda>theta_d'.
          bind_err (average_gruneisen c sv a (Some theta_d') squared limit_frequencies)
          (\<lambda>mean_g.
            let f1 = 0.849 * 3 * (4 powr (1 / 3))
                       / (20 * pi ^ 3 * (1 - 0.514 * inverse mean_g + 0.228 * inverse (mean_g\<^sup>2)));
                f2 = (k_B c * theta_d' / hbar c)\<^sup>2;
                f3 = k_B c * average_mass * volume s powr (1 / 3) * (1 / 10 ^ 10)
                       / (hbar c * mean_g\<^sup>2);
                thermal_cond = f1 * f2 * f3
            in case t of
                 None \<Rightarrow> Inr thermal_cond
               | Some t' \<Rightarrow>
                   if t' = 0 \<and> theta_d \<noteq> None then Inl ZeroDivisionError
                   else Inr (thermal_cond * (theta_d' / t')))))"

subsection \<open>GruneisenPhononBandStructure\<close>

text \<open>
  Modelled from the spec: the reciprocal lattice collaborator (\<open>pymatgen.core.lattice\<close>,
  not part of the sources at hand) is its matrix; its dictionary form holds the matrix under
  the key \<open>matrix\<close>, and \<open>Lattice(matrix)\<close> rebuilds it.
\<close>

record Lattice =
  matrix :: "real list list"

record lattice_dict =
  ld_matrix :: "real list list"

definition Lattice_as_dict :: "Lattice \<Rightarrow> lattice_dict" where
  "Lattice_as_dict l = \<lparr> ld_matrix = matrix l \<rparr>"

definition Lattice_init :: "real list list \<Rightarrow> Lattice" where
  "Lattice_init m = \<lparr> matrix = m \<rparr>"

text \<open>
  Modelled from the spec: a q-point of the base band-structure container is convertible to
  fractional coordinates (\<open>q.as_dict()["fcoords"]\<close>) and belongs to a lattice.
\<close>

record Kpoint =
  frac_coords :: "real list"
  kp_lattice :: Lattice

definition Kpoint_init ::
  "(Lattice \<Rightarrow> real list \<Rightarrow> real list) \<Rightarrow> real list \<Rightarrow> Lattice \<Rightarrow> bool \<Rightarrow> Kpoint" where
  "Kpoint_init get_fractional_coords coords lat coords_are_cartesian =
     \<lparr> frac_coords = (if coords_are_cartesian then get_fractional_coords lat coords else coords),
       kp_lattice = lat \<rparr>"

text \<open>
  Modelled from the spec: the dictionary forms of the structure collaborator
  (\<open>Structure.as_dict\<close>, \<open>Structure.from_dict\<close>) are parameters.
\<close>

record 'sd structure_codec =
  Structure_as_dict :: "Structure \<Rightarrow> 'sd"
  Structure_from_dict :: "'sd \<Rightarrow> Structure"

text \<open>
  The fields the band structure exposes: those of the base container
  (\<open>lattice_rec\<close>, \<open>qpoints\<close>, \<open>bands\<close>, \<open>labels_dict\<close>, \<open>eigendisplacements\<close>,
  \<open>structure\<close>) and \<open>gruneisen\<close>. Eigendisplacements and labels are present.
\<close>

record GruneisenPhononBandStructure =
  bs_lattice_rec :: Lattice
  bs_qpoints :: "Kpoint list"
  bs_bands :: "real list list"
  bs_labels_dict :: "string \<rightharpoonup> Kpoint"
  bs_eigendisplacements :: "complex list list list list"
  bs_structure :: "Structure option"
  bs_gruneisen :: "real list list"

text \<open>
  Modelled from the spec: the constructor of the base container
  (\<open>PhononBandStructure.__init__\<close>, not part of the sources at hand) validates nothing and
  stores its arguments, the q-points and the labelled points as points of the lattice in
  the given coordinate system. \<open>GruneisenPhononBandStructure.__init__\<close> calls it and
  stores the Grueneisen array.
\<close>

definition GruneisenPhononBandStructure_init ::
  "(Lattice \<Rightarrow> real list \<Rightarrow> real list) \<Rightarrow> real list list \<Rightarrow> real list list \<Rightarrow> real list list \<Rightarrow>
   Lattice \<Rightarrow> complex list list list list \<Rightarrow> (string \<rightharpoonup> real list) \<Rightarrow> bool \<Rightarrow>
   Structure option \<Rightarrow> GruneisenPhononBandStructure" where
  "GruneisenPhononBandStructure_init get_fractional_coords qpoints frequencies
       gruneisenparameters lat eigendisplacements labels_dict coords_are_cartesian struct =
     \<lparr> bs_lattice_rec = lat,
       bs_qpoints =
         map (\<lambda>q. Kpoint_init get_fractional_coords q lat coords_are_cartesian) qpoints,
       bs_bands = frequencies,
       bs_labels_dict =
         (\<lambda>k. map_option (\<lambda>v. Kpoint_init get_fractional_coords v lat coords_are_cartesian)
                 (labels_dict k)),
       bs_eigendisplacements = eigendisplacements,
       bs_structure = struct,
       bs_gruneisen = gruneisenparameters \<rparr>"

text \<open>
  The dictionary of \<open>as_dict\<close>, one field per key; the key \<open>structure\<close> may be absent.
\<close>

record 'sd bs_dict =
  d_module :: string
  d_class :: string
  d_lattice_rec :: lattice_dict
  d_qpoints :: "real list list"
  d_bands :: "real list list"
  d_labels_dict :: "string \<rightharpoonup> real list"
  d_eigendisplacements_real :: "real list list list list"
  d_eigendisplacements_imag :: "real list list list list"
  d_gruneisen :: "real list list"
  d_structure :: "'sd option"

text \<open>
  \<open>if self.structure:\<close> is Python's truth-value test: \<open>None\<close> is false, and an object
  with a length (\<open>len(self.structure)\<close> is the number of sites) is false when the length
  is zero.
\<close>

definition truth_value :: "Structure option \<Rightarrow> bool" where
  "truth_value so = (case so of None \<Rightarrow> False | Some s \<Rightarrow> length (sites s) \<noteq> 0)"

definition as_dict :: "'sd structure_codec \<Rightarrow> GruneisenPhononBandStructure \<Rightarrow> 'sd bs_dict" where
  "as_dict codec self =
     (let dct = \<lparr> d_module = ''pymatgen.phonon.gruneisen'',
                  d_class = ''GruneisenPhononBandStructure'',
                  d_lattice_rec = Lattice_as_dict (bs_lattice_rec self),
                  d_qpoints = map frac_coords (bs_qpoints self),
                  d_bands = bs_bands self,
                  d_labels_dict = (\<lambda>k. map_option frac_coords (bs_labels_dict self k)),
                  d_eigendisplacements_real =
                    map (map (map (map Re))) (bs_eigendisplacements self),
                  d_eigendisplacements_imag =
                    map (map (map (map Im))) (bs_eigendisplacements self),
                  d_gruneisen = bs_gruneisen self,
                  d_structure = None \<rparr>
      in if truth_value (bs_structure self)
         then dct\<lparr> d_structure := map_option (Structure_as_dict codec) (bs_structure self) \<rparr>
         else dct)"

text \<open>
  \<open>np.array(real) + np.array(imag) * 1j\<close>; arrays of different shapes are rejected, as for
  \<open>np_multiply\<close>.
\<close>

definition complex_array ::
  "real list list list list \<Rightarrow> real list list list list \<Rightarrow> error + complex list list list list" where
  "complex_array re im =
     (if map (map (map length)) re = map (map (map length)) im
      then Inr (map2 (map2 (map2 (map2 (\<lambda>r i. complex_of_real r + complex_of_real i * \<i>)))) re im)
      else Inl (ValueError ''operands could not be broadcast together''))"

definition from_dict ::
  "'sd structure_codec \<Rightarrow> (Lattice \<Rightarrow> real list \<Rightarrow> real list) \<Rightarrow> 'sd bs_dict \<Rightarrow>
   error + GruneisenPhononBandStructure" where
  "from_dict codec get_fractional_coords dct =
     (let lattice_rec = Lattice_init (ld_matrix (d_lattice_rec dct)) in
      bind_err (complex_array (d_eigendisplacements_real dct) (d_eigendisplacements_imag dct))
      (\<lambda>eigendisplacements.
        let struct = (case d_structure dct of
                        Some sd \<Rightarrow> Some (Structure_from_dict codec sd)
                      | None \<Rightarrow> None)
        in Inr (GruneisenPhononBandStructure_init get_fractional_coords
                  (d_qpoints dct) (d_bands dct) (d_gruneisen dct) lattice_rec
                  eigendisplacements (d_labels_dict dct) False struct)))"

subsection \<open>The weighted average as the specification words it\<close>

text \<open>
  For the selected (mode, q-point) pairs, with arrays of shape (modes, q-points):
  \<open>\<Sum> weight[q] * C_v[m,q] * gamma[m,q] / \<Sum> weight[q] * C_v[m,q]\<close>, the weight being the
  multiplicity of the q-point of the entry.
\<close>

definition spec_weighted_average ::
  "real list \<Rightarrow> real list list \<Rightarrow> real list list \<Rightarrow> (nat \<times> nat) list \<Rightarrow> real" where
  "spec_weighted_average weight cv gamma selected =
     (\<Sum>(m, q)\<leftarrow>selected. weight ! q * cv ! m ! q * gamma ! m ! q)
       / (\<Sum>(m, q)\<leftarrow>selected. weight ! q * cv ! m ! q)"


text \<open>The three factors of the Slack formula and the average mass, as the specification words them.\<close>

definition spec_average_mass :: "constants \<Rightarrow> Structure \<Rightarrow> real" where
  "spec_average_mass c s =
     sum_list (map atomic_mass (sites s)) / real (length (sites s)) * amu_to_kg c"

definition spec_f1 :: "real \<Rightarrow> real" where
  "spec_f1 mean_g =
     0.849 * 3 * 4 powr (1 / 3) / (20 * pi ^ 3 * (1 - 0.514 / mean_g + 0.228 / mean_g\<^sup>2))"

definition spec_f2 :: "constants \<Rightarrow> real \<Rightarrow> real" where
  "spec_f2 c theta_d = (k_B c * theta_d / hbar c)\<^sup>2"

definition spec_f3 :: "constants \<Rightarrow> real \<Rightarrow> real \<Rightarrow> real \<Rightarrow> real" where
  "spec_f3 c average_mass vol mean_g =
     k_B c * average_mass * vol powr (1 / 3) * (1 / 10 ^ 10) / (hbar c * mean_g\<^sup>2)"

text \<open>The two messages of the missing-data error.\<close>

definition missing_data_error :: "error \<Rightarrow> bool" where
  "missing_data_error e =
     (e = ValueError ''Structure is not defined.'' \<or>
      e = ValueError ''Multiplicities are not defined.'')"

subsection \<open>Concrete inputs\<close>

text \<open>The constants of CODATA 2018, as scipy tabulates them; \<open>hbar = h / (2 * pi)\<close>.\<close>

definition codata :: constants where
  "codata = \<lparr> tera = 10 ^ 12, k_B_Hz_per_K = 20836619120,
      k_B_eV_per_K = 8617333262 / 10 ^ 14, k_B = 1380649 / 10 ^ 29,
      hbar = (662607015 / 10 ^ 42) / (2 * pi), h_Planck = 662607015 / 10 ^ 42,
      amu_to_kg = 166053906660 / 10 ^ 38 \<rparr>"

definition positive_constants :: "constants \<Rightarrow> bool" where
  "positive_constants c = (0 < tera c \<and> 0 < k_B_Hz_per_K c \<and> 0 < k_B_eV_per_K c)"

text \<open>An installation without phonopy.\<close>

definition no_services :: services where
  "no_services =
     \<lparr> phonopy = None, spline_integral = (\<lambda>x y. Inl (LibraryError ''UnivariateSpline'')) \<rparr>"

text \<open>A stand-in for the density-of-states service, with a fixed curve and unit integrals.\<close>

definition stub_services :: services where
  "stub_services =
     \<lparr> phonopy = Some (\<lambda>frequencies weights. Inr ([0, 1, 2, 3], [0, 1, 1, 0])),
       spline_integral = (\<lambda>x y. Inr 1) \<rparr>"

definition one_atom :: Structure where
  "one_atom = \<lparr> sites = [\<lparr> atomic_mass = 28 \<rparr>], volume = 20 \<rparr>"

text \<open>
  One atom, three modes at three q-points with multiplicities 1, 2, 3. Two entries have a
  positive frequency, both at q-point 1: mode 0 with Grueneisen parameter 0 and mode 1
  with Grueneisen parameter 4.
\<close>

definition gp_three :: GruneisenParameter where
  "gp_three = GruneisenParameter_init
      [[0, 0, 0], [1 / 2, 0, 0], [1 / 2, 1 / 2, 0]]
      [[0, 0, 0], [0, 4, 0], [0, 0, 0]]
      [[0, 1, 0], [0, 1, 0], [0, 0, 0]]
      (Some [1, 2, 3]) None None"

definition gp_three_structure :: GruneisenParameter where
  "gp_three_structure = gp_three\<lparr> gp_structure := Some one_atom \<rparr>"

text \<open>
  Two atoms, six modes at six q-points of multiplicity 1. The positive frequencies are at
  q-point 0, in mode 0 (Grueneisen parameter 0) and in mode 3 (Grueneisen parameter \<open>g\<close>).
\<close>

definition gp_six :: "real \<Rightarrow> GruneisenParameter" where
  "gp_six g = GruneisenParameter_init
      [[0, 0, 0], [1 / 5, 0, 0], [2 / 5, 0, 0], [0, 1 / 5, 0], [1 / 5, 1 / 5, 0], [2 / 5, 1 / 5, 0]]
      [[0, 0, 0, 0, 0, 0], [0, 0, 0, 0, 0, 0], [0, 0, 0, 0, 0, 0],
       [g, 0, 0, 0, 0, 0], [0, 0, 0, 0, 0, 0], [0, 0, 0, 0, 0, 0]]
      [[1, 0, 0, 0, 0, 0], [0, 0, 0, 0, 0, 0], [0, 0, 0, 0, 0, 0],
       [1, 0, 0, 0, 0, 0], [0, 0, 0, 0, 0, 0], [0, 0, 0, 0, 0, 0]]
      (Some [1, 1, 1, 1, 1, 1]) None None"

text \<open>
  The end-to-end scenario of the specification: two atoms, six modes at two q-points with
  multiplicities 1 and 3, all frequencies positive.
\<close>

definition gp_six_two :: GruneisenParameter where
  "gp_six_two = GruneisenParameter_init
      [[0, 0, 0], [1 / 2, 0, 0]]
      [[1, 1], [1, 1], [1, 1], [1, 1], [1, 1], [1, 1]]
      [[1, 2], [1, 2], [1, 2], [3, 4], [3, 4], [3, 4]]
      (Some [1, 3]) None None"


definition gp_unset :: GruneisenParameter where
  "gp_unset = gp_three\<lparr> gp_multiplicities := None \<rparr>"

definition gp_no_multiplicities :: GruneisenParameter where
  "gp_no_multiplicities = gp_three_structure\<lparr> gp_multiplicities := None \<rparr>"

text \<open>A band structure at two q-points whose structure is a structure without sites.\<close>

definition no_sites :: Structure where
  "no_sites = \<lparr> sites = [], volume = 1 \<rparr>"

definition id_codec :: "Structure structure_codec" where
  "id_codec = \<lparr> Structure_as_dict = (\<lambda>s. s), Structure_from_dict = (\<lambda>s. s) \<rparr>"

definition bs_no_sites :: GruneisenPhononBandStructure where
  "bs_no_sites = GruneisenPhononBandStructure_init (\<lambda>l x. x)
      [[0, 0, 0], [1 / 2, 0, 0]] [] []
      (Lattice_init [[1, 0, 0], [0, 1, 0], [0, 0, 1]])
      []
      [''X'' \<mapsto> [1 / 2, 0, 0]] False (Some no_sites)"

section \<open>Properties\<close>

subsection \<open>Auxiliary facts\<close>

lemma bind_err_simps [simp]:
  "bind_err (Inl e) f = Inl e"
  "bind_err (Inr x) f = f x"
  by (simp_all add: bind_err_def)

lemma einstein_cv_nonpos: "w \<le> 0 \<Longrightarrow> einstein_cv c t w = 0"
  by (simp add: einstein_cv_def Let_def)

lemma einstein_cv_pos:
  assumes "positive_constants c" "0 < t" "0 < w"
  shows "0 < einstein_cv c t w"
proof -
  let ?x = "w * tera c / (k_B_Hz_per_K c * t)"
  from assms have x: "0 < ?x" by (simp add: positive_constants_def)
  then have "1 < exp ?x" by simp
  then have "0 < exp ?x - 1" by simp
  then have "0 < (exp ?x - 1)\<^sup>2" by (rule zero_less_power)
  moreover have "0 < ?x\<^sup>2" using x by (rule zero_less_power)
  then have "0 < k_B_eV_per_K c * ?x\<^sup>2 * exp ?x"
    using assms(1) by (simp add: positive_constants_def)
  ultimately show ?thesis using assms by (simp add: einstein_cv_def Let_def)
qed

lemma codata_positive: "positive_constants codata"
  by (simp add: positive_constants_def codata_def)

lemma cv_300_0 [simp]: "einstein_cv codata 300 0 = 0"
  by (simp add: einstein_cv_nonpos)

lemma cv_300_1 [simp]: "einstein_cv codata 300 1 \<noteq> 0"
  using einstein_cv_pos [OF codata_positive, of 300 1] by simp

lemmas average_gruneisen_defs =
  average_gruneisen_def select_indices_def np_where_def fancy_index_def np_multiply_def
  np_dot_def index2_def GruneisenParameter_init_def Let_def

lemma tdos_gruneisen [simp]: "tdos sv (a\<lparr>gp_gruneisen := g\<rparr>) = tdos sv a"
  by (simp add: tdos_def split: option.splits)

lemma debye_temp_limit_gruneisen [simp]:
  "debye_temp_limit c sv (a\<lparr>gp_gruneisen := g\<rparr>) = debye_temp_limit c sv a"
  by (simp add: debye_temp_limit_def)

lemma acoustic_debye_temp_gruneisen [simp]:
  "acoustic_debye_temp c sv (a\<lparr>gp_gruneisen := g\<rparr>) = acoustic_debye_temp c sv a"
  by (simp add: acoustic_debye_temp_def split: option.splits)

lemma select_indices_gruneisen [simp]:
  "select_indices c sv (a\<lparr>gp_gruneisen := g\<rparr>) lf = select_indices c sv a lf"
  by (simp add: select_indices_def Let_def)

lemma select_indices_invalid:
  "v \<noteq> ''debye'' \<Longrightarrow> v \<noteq> ''acoustic'' \<Longrightarrow>
   select_indices c sv a (Some v) =
     Inl (ValueError (v @ '' is not an accepted value for limit_frequencies.''))"
  by (simp add: select_indices_def)

lemma select_indices_plain:
  "select_indices c sv a None = Inr (np_where (\<lambda>x. x \<ge> 0) (gp_frequencies a))"
  "select_indices c sv a (Some ''acoustic'') =
     Inr (np_where (\<lambda>x. x \<ge> 0) (map (take 3) (gp_frequencies a)))"
  by (simp_all add: select_indices_def)

lemma gp_three_average:
  "average_gruneisen codata sv gp_three_structure (Some 300) False None = Inr (8 / 3)"
  by (simp add: average_gruneisen_defs gp_three_def gp_three_structure_def)

lemma slack_value:
  assumes "gp_structure a = Some s"
    and "(case theta_d of None \<Rightarrow> acoustic_debye_temp c sv a | Some th \<Rightarrow> Inr th) = Inr theta"
    and "average_gruneisen c sv a (Some theta) squared lf = Inr mean_g"
  shows "thermal_conductivity_slack c sv a squared lf theta_d None =
     Inr (spec_f1 mean_g * spec_f2 c theta * spec_f3 c (spec_average_mass c s) (volume s) mean_g)"
proof -
  have inv: "x * inverse y = x / y" for x y :: real
    by (simp add: divide_inverse)
  show ?thesis
    using assms
    unfolding thermal_conductivity_slack_def np_mean_def Let_def inv
      spec_f1_def spec_f2_def spec_f3_def spec_average_mass_def
    by (simp only: option.case bind_err_simps length_map)
qed

lemma slack_rescale:
  assumes "(case theta_d of None \<Rightarrow> acoustic_debye_temp c sv a | Some th \<Rightarrow> Inr th) = Inr theta"
    and "t \<noteq> 0"
  shows "thermal_conductivity_slack c sv a squared lf theta_d (Some t) =
     map_sum id (\<lambda>x. x * (theta / t)) (thermal_conductivity_slack c sv a squared lf theta_d None)"
  using assms unfolding thermal_conductivity_slack_def
  by (auto simp: bind_err_def Let_def split: sum.splits option.splits)

lemma gp_three_slack:
  "thermal_conductivity_slack codata no_services gp_three_structure False None (Some 300) None =
     Inr (spec_f1 (8 / 3) * spec_f2 codata 300 *
          spec_f3 codata (spec_average_mass codata one_atom) (volume one_atom) (8 / 3))"
  by (rule slack_value) (simp_all add: gp_three_average, simp add: gp_three_structure_def)

subsection \<open>The sum the source computes\<close>

text \<open>
  When every selected index pair lies inside the arrays and every axis-0 index has a
  multiplicity, the unsquared result is the quotient of two sums over the selected pairs
  \<open>(i, j)\<close> in which the weight of the entry is \<open>weights ! i\<close>, the multiplicity at
  its axis-0 index. With \<open>"acoustic"\<close> the selected pairs are those of the first three
  positions of axis 1, in every row.
\<close>

lemma np_where_in_range:
  assumes "(i, j) \<in> set (np_where p m)"
  shows "i < length m \<and> j < length (m ! i) \<and> p (m ! i ! j)"
  using assms by (auto simp: np_where_def in_set_enumerate_eq)

lemma fancy_index_in_range:
  assumes "\<And>i. i \<in> set idx \<Longrightarrow> i < length xs"
  shows "fancy_index xs idx = Inr (map (\<lambda>i. xs ! i) idx)"
  using assms by (simp add: fancy_index_def list_all_iff)

lemma np_multiply_same_shape:
  assumes "map length g = map length cv"
  shows "np_multiply cv g = Inr (map2 (map2 (*)) cv g)"
  using assms by (simp add: np_multiply_def)

lemma product_entry:
  assumes "map length g = map length cv" and "i < length cv" and "j < length (cv ! i)"
  shows "map2 (map2 (*)) cv g ! i ! j = cv ! i ! j * g ! i ! j"
proof -
  from assms(1) have len: "length g = length cv"
    by (metis length_map)
  with assms(2) have "length (g ! i) = length (cv ! i)"
    using assms(1) by (metis nth_map)
  with assms len show ?thesis by simp
qed

lemma np_dot_map: "np_dot (map f xs) (map g xs) = (\<Sum>x\<leftarrow>xs. f x * g x)"
  by (induction xs) (simp_all add: np_dot_def)

lemma average_gruneisen_value:
  assumes weights: "gp_multiplicities a = Some weights"
    and shape: "map length (gp_gruneisen a) = map length (gp_frequencies a)"
    and sel: "select_indices c sv a lf = Inr ind"
    and range: "\<And>i j. (i, j) \<in> set ind \<Longrightarrow>
                  i < length (gp_frequencies a) \<and> j < length (gp_frequencies a ! i)"
    and rows: "length (gp_frequencies a) \<le> length weights"
  shows "average_gruneisen c sv a (Some t) False lf =
     Inr ((\<Sum>(i, j)\<leftarrow>ind. weights ! i *
             (einstein_cv c t (gp_frequencies a ! i ! j) * gp_gruneisen a ! i ! j))
          / (\<Sum>(i, j)\<leftarrow>ind. weights ! i * einstein_cv c t (gp_frequencies a ! i ! j)))"
proof -
  let ?w = "gp_frequencies a"
  let ?cv = "map (map (einstein_cv c t)) ?w"
  have fi: "fancy_index weights (map fst ind) = Inr (map (\<lambda>i. weights ! i) (map fst ind))"
    using range rows by (intro fancy_index_in_range) fastforce
  have sh: "map length (gp_gruneisen a) = map length ?cv"
    using shape by (simp add: comp_def)
  have cv: "index2 ?cv ind = map (\<lambda>(i, j). einstein_cv c t (?w ! i ! j)) ind"
    unfolding index2_def using range by (intro map_cong) auto
  have cvg: "index2 (map2 (map2 (*)) ?cv (gp_gruneisen a)) ind =
             map (\<lambda>(i, j). einstein_cv c t (?w ! i ! j) * gp_gruneisen a ! i ! j) ind"
    unfolding index2_def
  proof (intro map_cong refl)
    fix x assume x: "x \<in> set ind"
    obtain i j where ij: "x = (i, j)" by (cases x)
    with x range have r: "i < length ?w" "j < length (?w ! i)" by auto
    then have "map2 (map2 (*)) ?cv (gp_gruneisen a) ! i ! j = ?cv ! i ! j * gp_gruneisen a ! i ! j"
      by (intro product_entry [OF sh]) simp_all
    with r ij show "(case x of (i, j) \<Rightarrow> map2 (map2 (*)) ?cv (gp_gruneisen a) ! i ! j) =
        (case x of (i, j) \<Rightarrow> einstein_cv c t (?w ! i ! j) * gp_gruneisen a ! i ! j)"
      by simp
  qed
  have dot: "np_dot (map (\<lambda>i. weights ! i) (map fst ind)) (map f ind) =
             (\<Sum>(i, j)\<leftarrow>ind. weights ! i * f (i, j))" for f :: "nat \<times> nat \<Rightarrow> real"
    using np_dot_map [where f = "\<lambda>x. weights ! fst x" and g = f and xs = ind]
    by (simp add: comp_def case_prod_unfold)
  show ?thesis
    unfolding average_gruneisen_def Let_def
    by (simp only: option.case bind_err_simps sel weights if_False fi
        np_multiply_same_shape [OF sh] cv cvg dot prod.case)
qed


lemma np_where_complete:
  assumes "i < length m" and "j < length (m ! i)" and "p (m ! i ! j)"
  shows "(i, j) \<in> set (np_where p m)"
proof -
  define f where
    "f = (\<lambda>(i :: nat, row). map (\<lambda>j. (i, j)) (filter (\<lambda>j. p (row ! j)) [0..<length row]))"
  from assms(1) have "(i, m ! i) \<in> set (enumerate 0 m)"
    by (simp add: in_set_enumerate_eq)
  then have "f (i, m ! i) \<in> set (map f (enumerate 0 m))"
    by simp
  moreover from assms(2,3) have "(i, j) \<in> set (f (i, m ! i))"
    by (simp add: f_def)
  ultimately have "(i, j) \<in> set (concat (map f (enumerate 0 m)))"
    unfolding set_concat by blast
  then show ?thesis
    by (simp only: np_where_def f_def)
qed

lemma np_where_set:
  "set (np_where p m) = {(i, j). i < length m \<and> j < length (m ! i) \<and> p (m ! i ! j)}"
  using np_where_in_range [of _ _ p m] np_where_complete [of _ m _ p] by auto

lemma acoustic_selection:
  "set (np_where p (map (take 3) m)) =
     {(i, j). i < length m \<and> j < 3 \<and> j < length (m ! i) \<and> p (m ! i ! j)}"
  by (auto simp: np_where_set)

lemma average_gruneisen_unrestricted:
  assumes "gp_multiplicities a = Some weights"
    and "map length (gp_gruneisen a) = map length (gp_frequencies a)"
    and "length (gp_frequencies a) \<le> length weights"
  shows "average_gruneisen c sv a (Some t) False None =
     Inr ((\<Sum>(i, j)\<leftarrow>np_where (\<lambda>x. x \<ge> 0) (gp_frequencies a). weights ! i *
             (einstein_cv c t (gp_frequencies a ! i ! j) * gp_gruneisen a ! i ! j))
          / (\<Sum>(i, j)\<leftarrow>np_where (\<lambda>x. x \<ge> 0) (gp_frequencies a).
               weights ! i * einstein_cv c t (gp_frequencies a ! i ! j)))"
  using assms
  by (intro average_gruneisen_value) (auto simp: select_indices_plain np_where_set)

lemma average_gruneisen_acoustic:
  assumes "gp_multiplicities a = Some weights"
    and "map length (gp_gruneisen a) = map length (gp_frequencies a)"
    and "length (gp_frequencies a) \<le> length weights"
  shows "average_gruneisen c sv a (Some t) False (Some ''acoustic'') =
     Inr ((\<Sum>(i, j)\<leftarrow>np_where (\<lambda>x. x \<ge> 0) (map (take 3) (gp_frequencies a)). weights ! i *
             (einstein_cv c t (gp_frequencies a ! i ! j) * gp_gruneisen a ! i ! j))
          / (\<Sum>(i, j)\<leftarrow>np_where (\<lambda>x. x \<ge> 0) (map (take 3) (gp_frequencies a)).
               weights ! i * einstein_cv c t (gp_frequencies a ! i ! j)))"
  using assms
  by (intro average_gruneisen_value) (auto simp: select_indices_plain acoustic_selection)

lemma average_gruneisen_index_error:
  assumes "gp_multiplicities a = Some weights"
    and "select_indices c sv a lf = Inr ind"
    and "(i, j) \<in> set ind" and "length weights \<le> i"
  shows "average_gruneisen c sv a (Some t) squared lf =
           Inl (IndexError ''index is out of bounds for axis 0'')"
proof -
  from assms(3) have "i \<in> set (map fst ind)"
    by force
  with assms(4) have "\<not> list_all (\<lambda>i. i < length weights) (map fst ind)"
    unfolding list_all_iff by (metis not_le)
  then show ?thesis
    unfolding average_gruneisen_def Let_def
    by (simp add: assms(1,2) fancy_index_def)
qed

subsection \<open>The average Grueneisen parameter\<close>

text \<open>
  C1. The claim: \<open>average_gruneisen\<close> returns the weighted average in which the weight
  of a selected entry is the multiplicity of its q-point, not of its mode index. With the
  documented layout (axis 0 the modes, axis 1 the q-points) the source weights an entry by
  \<open>weights[ind[0]]\<close>, the multiplicity at its mode index (lemma
  \<open>average_gruneisen_unrestricted\<close>), and fails when a selected mode index has no
  multiplicity (lemma \<open>average_gruneisen_index_error\<close>). On \<open>gp_three\<close> at 300 K,
  unsquared and unrestricted, the source returns 8/3, where the weighted average of the
  specification is 2; on the six modes and two q-points of \<open>gp_six_two\<close> the lookup
  of the weights leaves the array and the source raises an index error.
\<close>

theorem average_gruneisen_weights_by_mode_index:
  "average_gruneisen codata no_services gp_three (Some 300) False None = Inr (8 / 3) \<and>
   spec_weighted_average [1, 2, 3]
      (map (map (einstein_cv codata 300)) (gp_frequencies gp_three))
      (gp_gruneisen gp_three) (np_where (\<lambda>x. x \<ge> 0) (gp_frequencies gp_three)) = 2 \<and>
   average_gruneisen codata no_services gp_six_two (Some 300) False None =
      Inl (IndexError ''index is out of bounds for axis 0'')"
  by (simp add: average_gruneisen_defs gp_three_def gp_six_two_def spec_weighted_average_def)

text \<open>
  C2. The claim: with \<open>limit_frequencies = "acoustic"\<close> only the first three mode rows
  take part, so that the result does not depend on any mode of index 3 or more. The source
  slices \<open>w[:, :3]\<close>, the first three columns, which are q-points in the documented
  layout (lemma \<open>acoustic_selection\<close>): the two analyzers \<open>gp_six 2\<close> and \<open>gp_six 4\<close> have the same frequencies and the
  same Grueneisen parameters in modes 0, 1 and 2, differ in mode 3 only, and get different
  acoustic averages.
\<close>

theorem acoustic_average_depends_on_fourth_mode:
  "average_gruneisen codata no_services (gp_six 2) (Some 300) False (Some ''acoustic'') = Inr 1 \<and>
   average_gruneisen codata no_services (gp_six 4) (Some 300) False (Some ''acoustic'') = Inr 2 \<and>
   gp_frequencies (gp_six 2) = gp_frequencies (gp_six 4) \<and>
   gp_multiplicities (gp_six 2) = gp_multiplicities (gp_six 4) \<and>
   take 3 (gp_gruneisen (gp_six 2)) = take 3 (gp_gruneisen (gp_six 4))"
  by (simp add: average_gruneisen_defs gp_six_def)

text \<open>
  With \<open>squared = True\<close> the source squares the Grueneisen array before the average and
  takes one square root of the final scalar: the result is the square root of the
  unsquared result on the analyzer whose Grueneisen array is squared entry by entry, and
  a failure of the one is the same failure of the other.
\<close>

lemma average_gruneisen_squared_relation:
  "average_gruneisen c sv a t True lf =
     map_sum id sqrt
       (average_gruneisen c sv
          (a\<lparr> gp_gruneisen := map (map (\<lambda>g. g\<^sup>2)) (gp_gruneisen a) \<rparr>) t False lf)"
  unfolding average_gruneisen_def
  by (auto simp: bind_err_def Let_def split: sum.splits option.splits)

text \<open>
  Written out: the root of the quotient of the two sums over the selected pairs, the
  squared Grueneisen parameter of an entry weighted, as in the unsquared case, by the
  multiplicity at its axis-0 index.
\<close>

lemma average_gruneisen_squared_value:
  assumes weights: "gp_multiplicities a = Some weights"
    and shape: "map length (gp_gruneisen a) = map length (gp_frequencies a)"
    and sel: "select_indices c sv a lf = Inr ind"
    and range: "\<And>i j. (i, j) \<in> set ind \<Longrightarrow>
                  i < length (gp_frequencies a) \<and> j < length (gp_frequencies a ! i)"
    and rows: "length (gp_frequencies a) \<le> length weights"
  shows "average_gruneisen c sv a (Some t) True lf =
     Inr (sqrt ((\<Sum>(i, j)\<leftarrow>ind. weights ! i *
                   (einstein_cv c t (gp_frequencies a ! i ! j) * (gp_gruneisen a ! i ! j)\<^sup>2))
                / (\<Sum>(i, j)\<leftarrow>ind. weights ! i *
                     einstein_cv c t (gp_frequencies a ! i ! j))))"
proof -
  let ?a = "a\<lparr> gp_gruneisen := map (map (\<lambda>g. g\<^sup>2)) (gp_gruneisen a) \<rparr>"
  have len: "length (gp_gruneisen a) = length (gp_frequencies a)"
    using shape by (metis length_map)
  have entry: "gp_gruneisen ?a ! i ! j = (gp_gruneisen a ! i ! j)\<^sup>2"
    if "(i, j) \<in> set ind" for i j
  proof -
    from range [OF that] have i: "i < length (gp_frequencies a)"
      and j: "j < length (gp_frequencies a ! i)" by simp_all
    from i len have "length (gp_gruneisen a ! i) = length (gp_frequencies a ! i)"
      using shape by (metis nth_map)
    with i j len show ?thesis by simp
  qed
  have "average_gruneisen c sv ?a (Some t) False lf =
     Inr ((\<Sum>(i, j)\<leftarrow>ind. weights ! i *
             (einstein_cv c t (gp_frequencies ?a ! i ! j) * gp_gruneisen ?a ! i ! j))
          / (\<Sum>(i, j)\<leftarrow>ind. weights ! i * einstein_cv c t (gp_frequencies ?a ! i ! j)))"
    using weights shape sel range rows
    by (intro average_gruneisen_value) (simp_all add: comp_def)
  moreover have "(\<Sum>(i, j)\<leftarrow>ind. weights ! i *
             (einstein_cv c t (gp_frequencies ?a ! i ! j) * gp_gruneisen ?a ! i ! j)) =
        (\<Sum>(i, j)\<leftarrow>ind. weights ! i *
             (einstein_cv c t (gp_frequencies a ! i ! j) * (gp_gruneisen a ! i ! j)\<^sup>2))"
  proof (rule arg_cong [where f = sum_list], rule map_cong [OF refl])
    fix x assume x: "x \<in> set ind"
    obtain i j where ij: "x = (i, j)" by (cases x)
    from x ij have "gp_gruneisen ?a ! i ! j = (gp_gruneisen a ! i ! j)\<^sup>2"
      by (intro entry) simp
    then show "(case x of (i, j) \<Rightarrow> weights ! i *
             (einstein_cv c t (gp_frequencies ?a ! i ! j) * gp_gruneisen ?a ! i ! j)) =
        (case x of (i, j) \<Rightarrow> weights ! i *
             (einstein_cv c t (gp_frequencies a ! i ! j) * (gp_gruneisen a ! i ! j)\<^sup>2))"
      unfolding ij by (simp only: prod.case) simp
  qed
  ultimately show ?thesis
    by (simp add: average_gruneisen_squared_relation [where a = a])
qed


text \<open>
  C8, as amended. For a value \<open>v\<close> of \<open>limit_frequencies\<close> other than \<open>None\<close>,
  \<open>"debye"\<close> and \<open>"acoustic"\<close>, \<open>average_gruneisen\<close> fails with the invalid-argument
  error, whose message starts with \<open>v\<close>, when the temperature is supplied, or when it is
  not and the acoustic Debye temperature can be evaluated.
\<close>

theorem invalid_limit_frequencies:
  "v \<noteq> ''debye'' \<and> v \<noteq> ''acoustic'' \<and>
   (case t of None \<Rightarrow> acoustic_debye_temp c sv a | Some t' \<Rightarrow> Inr t') = Inr t0 \<longrightarrow>
     average_gruneisen c sv a t squared (Some v) =
       Inl (ValueError (v @ '' is not an accepted value for limit_frequencies.'')) \<and>
     prefix v (v @ '' is not an accepted value for limit_frequencies.'')"
  by (auto simp: average_gruneisen_def select_indices_invalid Let_def)

theorem invalid_limit_frequencies_witness:
  "average_gruneisen codata no_services gp_three (Some 300) True (Some ''bogus'') =
     Inl (ValueError ''bogus is not an accepted value for limit_frequencies.'')"
  using invalid_limit_frequencies
    [where v = "''bogus''" and t = "Some 300" and c = codata and sv = no_services
       and a = gp_three and ?t0.0 = 300 and squared = True]
  by simp

text \<open>
  C8 as stated fails when no temperature is given and the analyzer has no structure: the
  default temperature is evaluated first, and its missing-data error is what is raised.
\<close>

theorem invalid_limit_frequencies_counterexample:
  "average_gruneisen codata no_services gp_three None True (Some ''bogus'') =
     Inl (ValueError ''Structure is not defined.'') \<and>
   ValueError ''Structure is not defined.'' \<noteq>
     ValueError (''bogus'' @ '' is not an accepted value for limit_frequencies.'')"
  by (simp add: average_gruneisen_def acoustic_debye_temp_def gp_three_def
      GruneisenParameter_init_def)

text \<open>
  C10. With a supplied temperature and an unrecognized \<open>limit_frequencies\<close>, the
  invalid-argument error is raised also when the multiplicities are unset: it is not the
  missing-multiplicities error.
\<close>

theorem invalid_argument_before_missing_multiplicities:
  "v \<noteq> ''debye'' \<and> v \<noteq> ''acoustic'' \<and> gp_multiplicities a = None \<longrightarrow>
     average_gruneisen c sv a (Some t) squared (Some v) =
       Inl (ValueError (v @ '' is not an accepted value for limit_frequencies.'')) \<and>
     ValueError (v @ '' is not an accepted value for limit_frequencies.'') \<noteq>
       ValueError ''Multiplicities are not defined.''"
proof -
  have "length (v @ '' is not an accepted value for limit_frequencies.'') \<noteq>
        length ''Multiplicities are not defined.''"
    by simp
  then have "v @ '' is not an accepted value for limit_frequencies.'' \<noteq>
        ''Multiplicities are not defined.''"
    by metis
  then show ?thesis
    by (simp add: average_gruneisen_def select_indices_invalid Let_def)
qed

theorem invalid_argument_before_missing_multiplicities_witness:
  "gp_multiplicities gp_unset = None \<and>
   average_gruneisen codata no_services gp_unset (Some 300) True (Some ''bogus'') =
     Inl (ValueError ''bogus is not an accepted value for limit_frequencies.'')"
  using invalid_argument_before_missing_multiplicities
    [where v = "''bogus''" and a = gp_unset and c = codata and sv = no_services and t = 300
       and squared = True]
  by (simp add: gp_unset_def)

subsection \<open>Missing data\<close>

text \<open>
  C7, as amended. \<open>thermal_conductivity_slack\<close> fails with the missing-data error when
  the structure is unset. \<open>average_gruneisen\<close> with unset multiplicities and a supplied
  temperature fails with the missing-data error when \<open>limit_frequencies\<close> is \<open>None\<close> or
  \<open>"acoustic"\<close>; when it is \<open>"debye"\<close> the acoustic Debye temperature is evaluated
  first, and the call fails with the error of that evaluation, or with the missing-data
  error when that evaluation succeeds. The constructor stores unset fields and raises
  nothing.
\<close>

theorem missing_data_errors:
  "(gp_structure a = None \<longrightarrow>
      thermal_conductivity_slack c sv a squared lf theta_d t =
        Inl (ValueError ''Structure is not defined.'')) \<and>
   (gp_multiplicities a = None \<and> (lf = None \<or> lf = Some ''acoustic'') \<longrightarrow>
      average_gruneisen c sv a (Some t') squared lf =
        Inl (ValueError ''Multiplicities are not defined.'')) \<and>
   (gp_multiplicities a = None \<longrightarrow>
      average_gruneisen c sv a (Some t') squared (Some ''debye'') =
        bind_err (acoustic_debye_temp c sv a)
          (\<lambda>adt. Inl (ValueError ''Multiplicities are not defined.''))) \<and>
   gp_structure (GruneisenParameter_init q g f None None l) = None \<and>
   gp_multiplicities (GruneisenParameter_init q g f None None l) = None"
  by (auto simp: thermal_conductivity_slack_def average_gruneisen_def select_indices_plain
      GruneisenParameter_init_def select_indices_def Let_def bind_err_def split: sum.splits)

theorem missing_data_errors_witness:
  "gp_structure gp_unset = None \<and> gp_multiplicities gp_unset = None \<and>
   thermal_conductivity_slack codata no_services gp_unset True None None None =
     Inl (ValueError ''Structure is not defined.'') \<and>
   average_gruneisen codata no_services gp_unset (Some 300) True None =
     Inl (ValueError ''Multiplicities are not defined.'') \<and>
   average_gruneisen codata no_services gp_unset (Some 300) True (Some ''debye'') =
     Inl (ValueError ''Structure is not defined.'')"
  using missing_data_errors
    [where a = gp_unset and c = codata and sv = no_services and squared = True and lf = None
       and theta_d = None and t = None and t' = 300]
  by (simp add: gp_unset_def gp_three_def GruneisenParameter_init_def acoustic_debye_temp_def)

text \<open>
  C7 as stated fails for \<open>"debye"\<close>: with a structure, unset multiplicities and no
  phonopy, the evaluation of the acoustic Debye temperature raises the \<open>RuntimeError\<close> of
  \<open>tdos\<close> before the multiplicities are looked at.
\<close>

theorem missing_data_errors_counterexample:
  "gp_multiplicities gp_no_multiplicities = None \<and>
   average_gruneisen codata no_services gp_no_multiplicities (Some 300) True (Some ''debye'') =
     Inl (RuntimeError ''This method requires phonopy to be installed'') \<and>
   \<not> missing_data_error (RuntimeError ''This method requires phonopy to be installed'')"
  by (simp add: average_gruneisen_def select_indices_def acoustic_debye_temp_def
      debye_temp_limit_def tdos_def no_services_def gp_no_multiplicities_def
      gp_three_structure_def missing_data_error_def Let_def)

subsection \<open>The acoustic Debye temperature\<close>

text \<open>
  C9. With a structure, \<open>acoustic_debye_temp\<close> is \<open>debye_temp_limit\<close> divided by the cube
  root of the number of sites (and fails as \<open>debye_temp_limit\<close> fails); without a
  structure it fails with the missing-data error.
\<close>

theorem acoustic_debye_temp_cube_root:
  "(gp_structure a = Some s \<longrightarrow>
      acoustic_debye_temp c sv a =
        map_sum id (\<lambda>d. d / root 3 (real (length (sites s)))) (debye_temp_limit c sv a)) \<and>
   (gp_structure a = None \<longrightarrow>
      acoustic_debye_temp c sv a = Inl (ValueError ''Structure is not defined.''))"
  unfolding acoustic_debye_temp_def
  by (auto simp: bind_err_def root_powr_inverse split: sum.splits)

lemma stub_debye_temp_limit:
  "debye_temp_limit codata stub_services a = Inr (sqrt (5 / 3) / 20836619120)"
  by (simp add: debye_temp_limit_def tdos_def stub_services_def codata_def)

theorem acoustic_debye_temp_cube_root_witness:
  "gp_structure gp_three_structure = Some one_atom \<and>
   acoustic_debye_temp codata stub_services gp_three_structure =
     Inr (sqrt (5 / 3) / 20836619120 / root 3 (real (length (sites one_atom)))) \<and>
   gp_structure gp_three = None \<and>
   acoustic_debye_temp codata stub_services gp_three =
     Inl (ValueError ''Structure is not defined.'')"
  using acoustic_debye_temp_cube_root
      [where a = gp_three_structure and s = one_atom and c = codata and sv = stub_services]
    acoustic_debye_temp_cube_root
      [where a = gp_three and s = one_atom and c = codata and sv = stub_services]
  by (simp add: stub_debye_temp_limit gp_three_structure_def gp_three_def
      GruneisenParameter_init_def)

subsection \<open>The Slack formula\<close>

text \<open>
  C4. With a structure, \<open>thermal_conductivity_slack\<close> returns the product of the three
  factors of the specification, with its constants, where the average mass is the mean
  atomic mass of the sites in kilograms, \<open>theta_d\<close> is the acoustic Debye temperature when
  not given, and \<open>mean_g\<close> is \<open>average_gruneisen\<close> at temperature \<open>theta_d\<close>. This is
  the value returned when no temperature \<open>t\<close> is given; a temperature \<open>t\<close> other than
  zero multiplies it by \<open>theta_d / t\<close>.
\<close>

theorem thermal_conductivity_slack_formula:
  assumes "gp_structure a = Some s"
    and "(case theta_d of None \<Rightarrow> acoustic_debye_temp c sv a | Some th \<Rightarrow> Inr th) = Inr theta"
    and "average_gruneisen c sv a (Some theta) squared lf = Inr mean_g"
  shows "thermal_conductivity_slack c sv a squared lf theta_d None =
           Inr (spec_f1 mean_g * spec_f2 c theta *
                spec_f3 c (spec_average_mass c s) (volume s) mean_g) \<and>
         (\<forall>t. t \<noteq> 0 \<longrightarrow>
            thermal_conductivity_slack c sv a squared lf theta_d (Some t) =
              Inr (spec_f1 mean_g * spec_f2 c theta *
                   spec_f3 c (spec_average_mass c s) (volume s) mean_g * (theta / t)))"
  using slack_value [OF assms] slack_rescale [OF assms(2)] by simp

theorem thermal_conductivity_slack_formula_witness:
  "gp_structure gp_three_structure = Some one_atom \<and>
   average_gruneisen codata no_services gp_three_structure (Some 300) False None = Inr (8 / 3) \<and>
   thermal_conductivity_slack codata no_services gp_three_structure False None (Some 300) None =
     Inr (spec_f1 (8 / 3) * spec_f2 codata 300 *
          spec_f3 codata (spec_average_mass codata one_atom) (volume one_atom) (8 / 3))"
proof -
  have h1: "gp_structure gp_three_structure = Some one_atom"
    by (simp add: gp_three_structure_def)
  have h2: "(case Some 300 of None \<Rightarrow> acoustic_debye_temp codata no_services gp_three_structure
             | Some th \<Rightarrow> Inr th) = Inr (300 :: real)"
    by simp
  have h3: "average_gruneisen codata no_services gp_three_structure (Some 300) False None =
            Inr (8 / 3)"
    by (rule gp_three_average)
  from thermal_conductivity_slack_formula [OF h1 h2 h3] h1 h3 show ?thesis by blast
qed

text \<open>
  C5. For a positive \<open>T0\<close>, the value at \<open>theta_d = T0\<close>, \<open>t = 2 * T0\<close> is half the
  value at \<open>theta_d = T0\<close>, \<open>t = T0\<close>, and a failure of the one is the same failure of the
  other: a given temperature \<open>t\<close> only multiplies the Debye-point value (the value for no
  \<open>t\<close>) by \<open>theta_d / t\<close>.
\<close>

theorem thermal_conductivity_slack_rescaling:
  assumes "0 < T0"
  shows "thermal_conductivity_slack c sv a squared lf (Some T0) (Some (2 * T0)) =
           map_sum id (\<lambda>x. x / 2)
             (thermal_conductivity_slack c sv a squared lf (Some T0) (Some T0)) \<and>
         (\<forall>t. t \<noteq> 0 \<longrightarrow>
            thermal_conductivity_slack c sv a squared lf (Some T0) (Some t) =
              map_sum id (\<lambda>x. x * (T0 / t))
                (thermal_conductivity_slack c sv a squared lf (Some T0) None))"
proof -
  have th: "(case Some T0 of None \<Rightarrow> acoustic_debye_temp c sv a | Some th \<Rightarrow> Inr th) = Inr T0"
    by simp
  have r: "thermal_conductivity_slack c sv a squared lf (Some T0) (Some t) =
           map_sum id (\<lambda>x. x * (T0 / t))
             (thermal_conductivity_slack c sv a squared lf (Some T0) None)"
    if "t \<noteq> 0" for t
    using slack_rescale [OF th that] .
  have half: "x * (T0 / (2 * T0)) = x * (T0 / T0) / 2" for x :: real
    using assms by simp
  from assms have "2 * T0 \<noteq> 0" "T0 \<noteq> 0" by simp_all
  then have "thermal_conductivity_slack c sv a squared lf (Some T0) (Some (2 * T0)) =
           map_sum id (\<lambda>x. x / 2)
             (thermal_conductivity_slack c sv a squared lf (Some T0) (Some T0))"
    by (cases "thermal_conductivity_slack c sv a squared lf (Some T0) None")
       (simp_all add: r half)
  with r show ?thesis by blast
qed

theorem thermal_conductivity_slack_rescaling_witness:
  "(0 :: real) < 300 \<and>
   thermal_conductivity_slack codata no_services gp_three_structure False None
       (Some 300) (Some 600) =
     Inr (spec_f1 (8 / 3) * spec_f2 codata 300 *
          spec_f3 codata (spec_average_mass codata one_atom) (volume one_atom) (8 / 3) / 2) \<and>
   thermal_conductivity_slack codata no_services gp_three_structure False None
       (Some 300) (Some 300) =
     Inr (spec_f1 (8 / 3) * spec_f2 codata 300 *
          spec_f3 codata (spec_average_mass codata one_atom) (volume one_atom) (8 / 3))"
proof -
  have pos: "(0 :: real) < 300" by simp
  have r: "thermal_conductivity_slack codata no_services gp_three_structure False None
             (Some 300) (Some 300) =
           map_sum id (\<lambda>x. x * (300 / 300))
             (thermal_conductivity_slack codata no_services gp_three_structure False None
                (Some 300) None)"
    by (rule slack_rescale) simp_all
  from thermal_conductivity_slack_rescaling
         [OF pos, where c = codata and sv = no_services and a = gp_three_structure
            and squared = False and lf = None]
  have "thermal_conductivity_slack codata no_services gp_three_structure False None
          (Some 300) (Some (2 * 300)) =
        map_sum id (\<lambda>x. x / 2)
          (thermal_conductivity_slack codata no_services gp_three_structure False None
             (Some 300) (Some 300))"
    by blast
  then show ?thesis
    using pos by (simp add: r gp_three_slack)
qed

subsection \<open>Serialization of the band structure\<close>

lemma map2_same: "map2 h (map f xs) (map g xs) = map (\<lambda>x. h (f x) (g x)) xs"
  by (induction xs) simp_all

lemma complex_rebuild: "complex_of_real (Re z) + complex_of_real (Im z) * \<i> = z"
  by (simp add: complex_eq_iff)

lemma complex_array_roundtrip:
  "complex_array (map (map (map (map Re))) e) (map (map (map (map Im))) e) = Inr e"
  by (simp add: complex_array_def map2_same complex_rebuild comp_def)

lemma Lattice_rebuild: "Lattice_init (ld_matrix (Lattice_as_dict lat)) = lat"
  by (cases lat) (simp add: Lattice_init_def Lattice_as_dict_def)

text \<open>
  A constructed band structure whose structure is absent or has at least one site is
  rebuilt by \<open>from_dict\<close> from its dictionary, field by field, given that the structure
  collaborator is rebuilt from its own dictionary form.
\<close>

lemma from_dict_as_dict:
  assumes "\<And>s. Structure_from_dict codec (Structure_as_dict codec s) = s"
    and "truth_value struct \<or> struct = None"
  shows "from_dict codec gfc
           (as_dict codec (GruneisenPhononBandStructure_init gfc' qpoints frequencies
              gruneisenparameters lat eigendisplacements labels_dict False struct)) =
         Inr (GruneisenPhononBandStructure_init gfc' qpoints frequencies
              gruneisenparameters lat eigendisplacements labels_dict False struct)"
  using assms
  by (auto simp: from_dict_def as_dict_def GruneisenPhononBandStructure_init_def Kpoint_init_def
      Lattice_rebuild complex_array_roundtrip Let_def comp_def
      map_option.compositionality option.map_ident truth_value_def fun_eq_iff
      split: option.splits)

lemma as_dict_without_structure:
  "bs_structure x = None \<Longrightarrow> d_structure (as_dict codec x) = None"
  by (simp add: as_dict_def truth_value_def Let_def)

text \<open>
  C6. The claim: \<open>from_dict(x.as_dict())\<close> reproduces the structure of every band
  structure. \<open>as_dict\<close> tests \<open>if self.structure:\<close>, which is false for a structure
  without sites as it is for \<open>None\<close>: the dictionary of \<open>bs_no_sites\<close> has no
  \<open>structure\<close> key, and \<open>from_dict\<close> builds a band structure whose structure is
  \<open>None\<close>, not the structure of \<open>bs_no_sites\<close>.
\<close>

theorem as_dict_drops_structure_without_sites:
  "bs_structure bs_no_sites = Some no_sites \<and>
   d_structure (as_dict id_codec bs_no_sites) = None \<and>
   map_sum id bs_structure (from_dict id_codec (\<lambda>l x. x) (as_dict id_codec bs_no_sites)) =
     Inr None"
  by (simp add: as_dict_def from_dict_def bs_no_sites_def GruneisenPhononBandStructure_init_def
      truth_value_def no_sites_def complex_array_def Let_def)

end
